theory Spec2Isabelle
  imports Main "HOL-Library.Sublist"
begin

section \<open>Syntax tree nodes consumed by babel-module-export-utils.ts\<close>

text \<open>
  The nodes are those of \<^verbatim>\<open>@babel/types\<close>, restricted to the fields the module reads.
  A tagged union is a datatype whose constructor is the \<^verbatim>\<open>type\<close> discriminant; a
  nullable field is an \<open>option\<close>; an \<^verbatim>\<open>Identifier\<close> carries its \<^verbatim>\<open>name\<close>.

  \<open>lval\<close> is what a declarator's \<^verbatim>\<open>id\<close>, a property's \<^verbatim>\<open>key\<close> and a property's
  \<^verbatim>\<open>value\<close> can be: an identifier, an object pattern, or any other node kind
  (array pattern, assignment pattern, member expression, literal, ...), which the module
  never looks into. The entries of \<^verbatim>\<open>ObjectPattern.properties\<close> are
  \<^verbatim>\<open>ObjectProperty\<close> or \<^verbatim>\<open>RestElement\<close> nodes.
\<close>

datatype lval =
    Identifier string
  | ObjectPattern "property list"
  | OtherNode
and property =
    ObjectProperty lval lval
  | RestElement lval

text \<open>\<^verbatim>\<open>VariableDeclaration.declarations\<close> is an array of \<^verbatim>\<open>VariableDeclarator\<close>
  nodes, each with a non-null \<^verbatim>\<open>id\<close>.\<close>

datatype declarator = VariableDeclarator lval

text \<open>
  \<^verbatim>\<open>ExportNamedDeclaration.declaration\<close>: a function declaration with its nullable
  \<^verbatim>\<open>id\<close>, a variable declaration with its declarators, or any other declaration kind
  (class declaration, type alias, ...).
\<close>

datatype inner_declaration =
    FunctionDeclaration "string option"
  | VariableDeclaration "declarator list"
  | OtherDeclaration

text \<open>
  \<^verbatim>\<open>ExportSpecifier.exported\<close> is an \<^verbatim>\<open>Identifier\<close> or a \<^verbatim>\<open>StringLiteral\<close>
  (\<^verbatim>\<open>export { a as "b" }\<close>); its \<^verbatim>\<open>local\<close> is an identifier, kept by name.
  The specifier list of an \<^verbatim>\<open>ExportNamedDeclaration\<close> may also hold
  \<^verbatim>\<open>ExportDefaultSpecifier\<close> and \<^verbatim>\<open>ExportNamespaceSpecifier\<close> nodes, whose
  \<^verbatim>\<open>exported\<close> is an identifier.
\<close>

datatype module_export_name =
    ExportedIdentifier string
  | ExportedStringLiteral string

datatype specifier =
    ExportSpecifier string module_export_name
  | ExportDefaultSpecifier string
  | ExportNamespaceSpecifier string

text \<open>The field \<^verbatim>\<open>declaration\<close> is \<open>declaration_node\<close> here.\<close>

record ExportNamedDeclaration =
  declaration_node :: "inner_declaration option"
  specifiers :: "specifier list"

section \<open>The export-form classifier\<close>

text \<open>
  \<^verbatim>\<open>node.declaration?.type === `FunctionDeclaration` && node.declaration.id?.name === name\<close>:
  optional chaining on an absent declaration or an absent \<^verbatim>\<open>id\<close> gives
  \<^verbatim>\<open>undefined\<close>, which is not strictly equal to any string.
\<close>

definition isNamedExportFunction :: "ExportNamedDeclaration \<Rightarrow> string \<Rightarrow> bool" where
  "isNamedExportFunction node name =
     (case declaration_node node of
        None \<Rightarrow> False
      | Some (FunctionDeclaration fid) \<Rightarrow>
          (case fid of None \<Rightarrow> False | Some n \<Rightarrow> n = name)
      | Some _ \<Rightarrow> False)"

text \<open>
  The \<^verbatim>\<open>for ... of\<close> loop of \<^verbatim>\<open>isNamedExportVariable\<close> over the declarators: every
  path through its body returns, so an iteration never hands over to the next one. The
  test \<^verbatim>\<open>declaration.type !== `VariableDeclarator`\<close> cannot succeed on an entry of
  \<^verbatim>\<open>declarations\<close>.
\<close>

fun isNamedExportVariable_loop :: "declarator list \<Rightarrow> string \<Rightarrow> bool" where
  "isNamedExportVariable_loop [] name = False"
| "isNamedExportVariable_loop (VariableDeclarator did # rest) name =
     (case did of
        Identifier n \<Rightarrow> n = name
      | _ \<Rightarrow> False)"

definition isNamedExportVariable :: "ExportNamedDeclaration \<Rightarrow> string \<Rightarrow> bool" where
  "isNamedExportVariable node name =
     (case declaration_node node of
        Some (VariableDeclaration ds) \<Rightarrow> isNamedExportVariable_loop ds name
      | _ \<Rightarrow> False)"

text \<open>
  The inner loop of \<^verbatim>\<open>isNamedExportDestructuredVariable\<close>,
  \<^verbatim>\<open>for (let i = 0; i < properties.length; i++)\<close>: its body returns in the iteration
  \<open>i = 0\<close>, so it either returns a value (\<open>Some\<close>) on the first property or, on an
  empty property list, falls through without returning (\<open>None\<close>).
\<close>

fun isNamedExportDestructuredVariable_properties :: "property list \<Rightarrow> string \<Rightarrow> bool option" where
  "isNamedExportDestructuredVariable_properties [] name = None"
| "isNamedExportDestructuredVariable_properties (p # ps) name =
     (case p of
        ObjectProperty k v \<Rightarrow>
          (case v of Identifier n \<Rightarrow> Some (n = name) | _ \<Rightarrow> Some False)
      | RestElement a \<Rightarrow> Some False)"

text \<open>
  The outer \<^verbatim>\<open>for ... of\<close> loop over the declarators: it returns \<open>False\<close> on a
  declarator whose \<^verbatim>\<open>id\<close> is not an object pattern, returns what the inner loop
  returns, and goes on to the next declarator when the inner loop fell through.
\<close>

fun isNamedExportDestructuredVariable_loop :: "declarator list \<Rightarrow> string \<Rightarrow> bool" where
  "isNamedExportDestructuredVariable_loop [] name = False"
| "isNamedExportDestructuredVariable_loop (VariableDeclarator did # rest) name =
     (case did of
        ObjectPattern ps \<Rightarrow>
          (case isNamedExportDestructuredVariable_properties ps name of
             Some r \<Rightarrow> r
           | None \<Rightarrow> isNamedExportDestructuredVariable_loop rest name)
      | _ \<Rightarrow> False)"

definition isNamedExportDestructuredVariable :: "ExportNamedDeclaration \<Rightarrow> string \<Rightarrow> bool" where
  "isNamedExportDestructuredVariable node name =
     (case declaration_node node of
        Some (VariableDeclaration ds) \<Rightarrow> isNamedExportDestructuredVariable_loop ds name
      | _ \<Rightarrow> False)"

text \<open>
  The callback given to \<^verbatim>\<open>node.specifiers.some\<close>:
  \<^verbatim>\<open>isExportSpecifier(specifier) && isIdentifier(specifier.exported) && specifier.exported.name === name\<close>.
\<close>

fun specifier_matches :: "string \<Rightarrow> specifier \<Rightarrow> bool" where
  "specifier_matches name (ExportSpecifier loc ex) =
     (case ex of ExportedIdentifier n \<Rightarrow> n = name | ExportedStringLiteral s \<Rightarrow> False)"
| "specifier_matches name (ExportDefaultSpecifier ex) = False"
| "specifier_matches name (ExportNamespaceSpecifier ex) = False"

definition isNamedExportSpecifier :: "ExportNamedDeclaration \<Rightarrow> string \<Rightarrow> bool" where
  "isNamedExportSpecifier node name = list_ex (specifier_matches name) (specifiers node)"

text \<open>
  \<^verbatim>\<open>a || b || c || d\<close> on booleans: an operand is evaluated only when every operand
  to its left was false.
\<close>

definition isNamedExport :: "ExportNamedDeclaration \<Rightarrow> string \<Rightarrow> bool" where
  "isNamedExport node name =
     (if isNamedExportFunction node name then True
      else if isNamedExportVariable node name then True
      else if isNamedExportDestructuredVariable node name then True
      else isNamedExportSpecifier node name)"

text \<open>
  The same chain, recording which of the four predicates it calls, in the order of the
  calls.
\<close>

datatype export_form = FunctionForm | VariableForm | DestructuredForm | SpecifierForm

definition isNamedExport_calls :: "ExportNamedDeclaration \<Rightarrow> string \<Rightarrow> export_form list" where
  "isNamedExport_calls node name =
     (if isNamedExportFunction node name then [FunctionForm]
      else if isNamedExportVariable node name then [FunctionForm, VariableForm]
      else if isNamedExportDestructuredVariable node name
        then [FunctionForm, VariableForm, DestructuredForm]
      else [FunctionForm, VariableForm, DestructuredForm, SpecifierForm])"

section \<open>The destructured-property remover\<close>





section \<open>The destructured-variable form as the specification words it\<close>

text \<open>
  The specification's wording of the destructured-variable form, for comparison with
  \<^verbatim>\<open>isNamedExportDestructuredVariable\<close>: the inner node is a variable declaration, its
  first declarator's pattern is an object pattern, and the first property of that pattern
  is an \<^verbatim>\<open>ObjectProperty\<close> binding an identifier with the target name.
\<close>

definition spec_isNamedExportDestructuredVariable :: "ExportNamedDeclaration \<Rightarrow> string \<Rightarrow> bool" where
  "spec_isNamedExportDestructuredVariable node name =
     (case declaration_node node of
        Some (VariableDeclaration (VariableDeclarator (ObjectPattern (ObjectProperty k (Identifier n) # ps)) # rest)) \<Rightarrow>
          n = name
      | _ \<Rightarrow> False)"

section \<open>Auxiliary facts\<close>











lemma isNamedExportVariable_loop_iff:
  "isNamedExportVariable_loop ds name \<longleftrightarrow> (\<exists>rest. ds = VariableDeclarator (Identifier name) # rest)"
proof (cases ds)
  case Nil
  then show ?thesis by simp
next
  case (Cons d rest)
  obtain did where "d = VariableDeclarator did" by (cases d)
  with Cons show ?thesis by (cases did) auto
qed

lemma isNamedExportDestructuredVariable_loop_iff:
  "isNamedExportDestructuredVariable_loop ds name \<longleftrightarrow>
     (\<exists>k ps rest. dropWhile (\<lambda>d. d = VariableDeclarator (ObjectPattern [])) ds
        = VariableDeclarator (ObjectPattern (ObjectProperty k (Identifier name) # ps)) # rest)"
proof (induction ds)
  case Nil
  then show ?case by simp
next
  case (Cons d ds)
  obtain did where d: "d = VariableDeclarator did" by (cases d)
  show ?case
  proof (cases did)
    case (Identifier n)
    with d show ?thesis by simp
  next
    case OtherNode
    with d show ?thesis by simp
  next
    case (ObjectPattern props)
    show ?thesis
    proof (cases props)
      case Nil
      with d ObjectPattern Cons.IH show ?thesis by simp
    next
      case (Cons p ps)
      show ?thesis
      proof (cases p)
        case (RestElement a)
        with d ObjectPattern Cons show ?thesis by simp
      next
        case (ObjectProperty k v)
        with d ObjectPattern Cons show ?thesis by (cases v) auto
      qed
    qed
  qed
qed

lemma specifier_matches_iff:
  "specifier_matches name s \<longleftrightarrow> (\<exists>loc. s = ExportSpecifier loc (ExportedIdentifier name))"
proof (cases s)
  case (ExportSpecifier loc ex)
  then show ?thesis by (cases ex) auto
qed simp_all

section \<open>The classifier\<close>

text \<open>
  C6. \<^verbatim>\<open>isNamedExportFunction(node, name)\<close> is true exactly when the inner node of the
  export is a function declaration whose \<^verbatim>\<open>id\<close> is present and has the target name.
  A function declaration without \<^verbatim>\<open>id\<close> matches no name.
\<close>

theorem isNamedExportFunction_iff:
  "(isNamedExportFunction node name \<longleftrightarrow>
      declaration_node node = Some (FunctionDeclaration (Some name)))
   \<and> (declaration_node node = Some (FunctionDeclaration None) \<longrightarrow>
        \<not> isNamedExportFunction node name)"
  by (auto simp: isNamedExportFunction_def split: option.splits inner_declaration.splits)

theorem isNamedExportFunction_iff_witness:
  "isNamedExportFunction
     \<lparr>declaration_node = Some (FunctionDeclaration (Some ''f'')), specifiers = []\<rparr> ''f''
   \<and> \<not> isNamedExportFunction
     \<lparr>declaration_node = Some (FunctionDeclaration None), specifiers = []\<rparr> ''f''"
  using isNamedExportFunction_iff
          [of "\<lparr>declaration_node = Some (FunctionDeclaration (Some ''f'')), specifiers = []\<rparr>" "''f''"]
        isNamedExportFunction_iff
          [of "\<lparr>declaration_node = Some (FunctionDeclaration None), specifiers = []\<rparr>" "''f''"]
  by simp

text \<open>
  C3. \<^verbatim>\<open>isNamedExportVariable(node, name)\<close> is true exactly when the inner node is a
  variable declaration whose first declarator binds the plain identifier \<open>name\<close>. Only
  the first declarator counts: when it is anything else, the result is false whatever the
  later declarators are. For \<^verbatim>\<open>export let a, b\<close> the name \<open>b\<close> is not matched.
\<close>

theorem isNamedExportVariable_first_declarator_only:
  "(isNamedExportVariable node name \<longleftrightarrow>
      (\<exists>rest. declaration_node node =
         Some (VariableDeclaration (VariableDeclarator (Identifier name) # rest))))
   \<and> (\<forall>d rest. declaration_node node = Some (VariableDeclaration (VariableDeclarator d # rest))
         \<and> d \<noteq> Identifier name \<longrightarrow> \<not> isNamedExportVariable node name)
   \<and> \<not> isNamedExportVariable
         \<lparr>declaration_node = Some (VariableDeclaration
            [VariableDeclarator (Identifier ''a''), VariableDeclarator (Identifier ''b'')]),
          specifiers = []\<rparr> ''b''"
  by (auto simp: isNamedExportVariable_def isNamedExportVariable_loop_iff
           split: option.splits inner_declaration.splits)

theorem isNamedExportVariable_first_declarator_only_witness:
  "isNamedExportVariable
     \<lparr>declaration_node = Some (VariableDeclaration [VariableDeclarator (Identifier ''a'')]),
      specifiers = []\<rparr> ''a''
   \<and> \<not> isNamedExportVariable
     \<lparr>declaration_node = Some (VariableDeclaration
        [VariableDeclarator (ObjectPattern []), VariableDeclarator (Identifier ''b'')]),
      specifiers = []\<rparr> ''b''"
  using isNamedExportVariable_first_declarator_only
          [of "\<lparr>declaration_node = Some (VariableDeclaration [VariableDeclarator (Identifier ''a'')]),
                specifiers = []\<rparr>" "''a''"]
        isNamedExportVariable_first_declarator_only
          [of "\<lparr>declaration_node = Some (VariableDeclaration
                 [VariableDeclarator (ObjectPattern []), VariableDeclarator (Identifier ''b'')]),
                specifiers = []\<rparr>" "''b''"]
  by simp

text \<open>
  C4, as stated: the destructured-variable form holds exactly when the first declarator's
  object pattern has a first property binding the target name. This fails for
  \<^verbatim>\<open>export const {} = x, { a } = y\<close> and the name \<open>a\<close>: the inner loop does not run on
  the empty pattern, so the outer loop goes on to the second declarator and matches there.
\<close>

theorem isNamedExportDestructuredVariable_counterexample:
  "isNamedExportDestructuredVariable
     \<lparr>declaration_node = Some (VariableDeclaration
        [VariableDeclarator (ObjectPattern []),
         VariableDeclarator (ObjectPattern [ObjectProperty (Identifier ''a'') (Identifier ''a'')])]),
      specifiers = []\<rparr> ''a''
   \<and> \<not> spec_isNamedExportDestructuredVariable
     \<lparr>declaration_node = Some (VariableDeclaration
        [VariableDeclarator (ObjectPattern []),
         VariableDeclarator (ObjectPattern [ObjectProperty (Identifier ''a'') (Identifier ''a'')])]),
      specifiers = []\<rparr> ''a''"
  by (simp add: isNamedExportDestructuredVariable_def spec_isNamedExportDestructuredVariable_def)

text \<open>
  C4, amended. Declarators whose pattern is an empty object pattern are passed over; the
  first declarator that is not one decides. \<^verbatim>\<open>isNamedExportDestructuredVariable\<close> is true
  exactly when that declarator's pattern is an object pattern whose first property is an
  \<^verbatim>\<open>ObjectProperty\<close> whose value (not its key) is a plain identifier with the target
  name. When the first declarator's pattern is not an empty object pattern this is the
  specification's wording. For \<^verbatim>\<open>export const { a, b: c } = obj\<close> the name \<open>a\<close> is
  matched and the name \<open>c\<close> is not.
\<close>

theorem isNamedExportDestructuredVariable_skips_empty_patterns:
  "(isNamedExportDestructuredVariable node name \<longleftrightarrow>
      (\<exists>ds k ps rest. declaration_node node = Some (VariableDeclaration ds)
         \<and> dropWhile (\<lambda>d. d = VariableDeclarator (ObjectPattern [])) ds
             = VariableDeclarator (ObjectPattern (ObjectProperty k (Identifier name) # ps)) # rest))
   \<and> ((\<forall>rest. declaration_node node \<noteq>
          Some (VariableDeclaration (VariableDeclarator (ObjectPattern []) # rest))) \<longrightarrow>
        isNamedExportDestructuredVariable node name
          = spec_isNamedExportDestructuredVariable node name)
   \<and> isNamedExportDestructuredVariable
        \<lparr>declaration_node = Some (VariableDeclaration
           [VariableDeclarator (ObjectPattern
              [ObjectProperty (Identifier ''a'') (Identifier ''a''),
               ObjectProperty (Identifier ''b'') (Identifier ''c'')])]),
         specifiers = []\<rparr> ''a''
   \<and> \<not> isNamedExportDestructuredVariable
        \<lparr>declaration_node = Some (VariableDeclaration
           [VariableDeclarator (ObjectPattern
              [ObjectProperty (Identifier ''a'') (Identifier ''a''),
               ObjectProperty (Identifier ''b'') (Identifier ''c'')])]),
         specifiers = []\<rparr> ''c''"
proof (intro conjI)
  show "isNamedExportDestructuredVariable node name \<longleftrightarrow>
      (\<exists>ds k ps rest. declaration_node node = Some (VariableDeclaration ds)
         \<and> dropWhile (\<lambda>d. d = VariableDeclarator (ObjectPattern [])) ds
             = VariableDeclarator (ObjectPattern (ObjectProperty k (Identifier name) # ps)) # rest)"
    by (auto simp: isNamedExportDestructuredVariable_def isNamedExportDestructuredVariable_loop_iff
             split: option.splits inner_declaration.splits)
next
  show "(\<forall>rest. declaration_node node \<noteq>
          Some (VariableDeclaration (VariableDeclarator (ObjectPattern []) # rest))) \<longrightarrow>
        isNamedExportDestructuredVariable node name
          = spec_isNamedExportDestructuredVariable node name"
    by (auto simp: isNamedExportDestructuredVariable_def spec_isNamedExportDestructuredVariable_def
             split: option.splits inner_declaration.splits list.splits declarator.splits
                    lval.splits property.splits)
qed (simp_all add: isNamedExportDestructuredVariable_def)

theorem isNamedExportDestructuredVariable_skips_empty_patterns_witness:
  "isNamedExportDestructuredVariable
     \<lparr>declaration_node = Some (VariableDeclaration
        [VariableDeclarator (ObjectPattern
           [ObjectProperty (Identifier ''k'') (Identifier ''v''),
            ObjectProperty (Identifier ''w'') (Identifier ''w'')])]),
      specifiers = []\<rparr> ''v''
   \<and> spec_isNamedExportDestructuredVariable
     \<lparr>declaration_node = Some (VariableDeclaration
        [VariableDeclarator (ObjectPattern
           [ObjectProperty (Identifier ''k'') (Identifier ''v''),
            ObjectProperty (Identifier ''w'') (Identifier ''w'')])]),
      specifiers = []\<rparr> ''v''"
  using isNamedExportDestructuredVariable_skips_empty_patterns
          [of "\<lparr>declaration_node = Some (VariableDeclaration
                 [VariableDeclarator (ObjectPattern
                    [ObjectProperty (Identifier ''k'') (Identifier ''v''),
                     ObjectProperty (Identifier ''w'') (Identifier ''w'')])]),
                specifiers = []\<rparr>" "''v''"]
  by (simp add: spec_isNamedExportDestructuredVariable_def)

text \<open>
  C5. \<^verbatim>\<open>isNamedExportSpecifier(node, name)\<close> is true exactly when some entry of the
  specifier list, at any position, is an \<^verbatim>\<open>ExportSpecifier\<close> whose exported identifier
  has the target name; the local name plays no part. For \<^verbatim>\<open>export { x, y as z }\<close> the
  names \<open>x\<close> and \<open>z\<close> are matched and \<open>y\<close> is not.
\<close>

theorem isNamedExportSpecifier_scans_whole_list:
  "(isNamedExportSpecifier node name \<longleftrightarrow>
      (\<exists>loc. ExportSpecifier loc (ExportedIdentifier name) \<in> set (specifiers node)))
   \<and> isNamedExportSpecifier
        \<lparr>declaration_node = None,
         specifiers = [ExportSpecifier ''x'' (ExportedIdentifier ''x''),
                       ExportSpecifier ''y'' (ExportedIdentifier ''z'')]\<rparr> ''x''
   \<and> isNamedExportSpecifier
        \<lparr>declaration_node = None,
         specifiers = [ExportSpecifier ''x'' (ExportedIdentifier ''x''),
                       ExportSpecifier ''y'' (ExportedIdentifier ''z'')]\<rparr> ''z''
   \<and> \<not> isNamedExportSpecifier
        \<lparr>declaration_node = None,
         specifiers = [ExportSpecifier ''x'' (ExportedIdentifier ''x''),
                       ExportSpecifier ''y'' (ExportedIdentifier ''z'')]\<rparr> ''y''"
proof (intro conjI)
  show "isNamedExportSpecifier node name \<longleftrightarrow>
      (\<exists>loc. ExportSpecifier loc (ExportedIdentifier name) \<in> set (specifiers node))"
    unfolding isNamedExportSpecifier_def list_ex_iff specifier_matches_iff by blast
qed (simp_all add: isNamedExportSpecifier_def)

theorem isNamedExportSpecifier_scans_whole_list_witness:
  "isNamedExportSpecifier
     \<lparr>declaration_node = None,
      specifiers = [ExportSpecifier ''p'' (ExportedIdentifier ''q''),
                    ExportSpecifier ''r'' (ExportedIdentifier ''s''),
                    ExportSpecifier ''t'' (ExportedIdentifier ''u'')]\<rparr> ''u''
   \<and> \<not> isNamedExportSpecifier
     \<lparr>declaration_node = None,
      specifiers = [ExportSpecifier ''p'' (ExportedIdentifier ''q''),
                    ExportSpecifier ''r'' (ExportedIdentifier ''s''),
                    ExportSpecifier ''t'' (ExportedIdentifier ''u'')]\<rparr> ''t''"
  using isNamedExportSpecifier_scans_whole_list
          [of "\<lparr>declaration_node = None,
                specifiers = [ExportSpecifier ''p'' (ExportedIdentifier ''q''),
                              ExportSpecifier ''r'' (ExportedIdentifier ''s''),
                              ExportSpecifier ''t'' (ExportedIdentifier ''u'')]\<rparr>" "''u''"]
        isNamedExportSpecifier_scans_whole_list
          [of "\<lparr>declaration_node = None,
                specifiers = [ExportSpecifier ''p'' (ExportedIdentifier ''q''),
                              ExportSpecifier ''r'' (ExportedIdentifier ''s''),
                              ExportSpecifier ''t'' (ExportedIdentifier ''u'')]\<rparr>" "''t''"]
  by simp

text \<open>
  C10. An entry of the specifier list that is not an \<^verbatim>\<open>ExportSpecifier\<close> with an
  identifier as exported name never makes \<^verbatim>\<open>isNamedExportSpecifier\<close> true: a list of
  default specifiers, namespace specifiers and string-literal exports matches no name,
  inserting a namespace or default specifier that carries the target name changes
  nothing, and the result is that of the list restricted to its \<^verbatim>\<open>ExportSpecifier\<close>
  entries.
\<close>

theorem non_ExportSpecifier_entries_never_match:
  "((\<forall>s\<in>set (specifiers node).
        (\<exists>e. s = ExportDefaultSpecifier e) \<or> (\<exists>e. s = ExportNamespaceSpecifier e)
        \<or> (\<exists>loc lit. s = ExportSpecifier loc (ExportedStringLiteral lit))) \<longrightarrow>
      \<not> isNamedExportSpecifier node name)
   \<and> isNamedExportSpecifier (node\<lparr>specifiers := xs @ ExportNamespaceSpecifier name # ys\<rparr>) name
       = isNamedExportSpecifier (node\<lparr>specifiers := xs @ ys\<rparr>) name
   \<and> isNamedExportSpecifier (node\<lparr>specifiers := xs @ ExportDefaultSpecifier name # ys\<rparr>) name
       = isNamedExportSpecifier (node\<lparr>specifiers := xs @ ys\<rparr>) name
   \<and> isNamedExportSpecifier node name
       = isNamedExportSpecifier
           (node\<lparr>specifiers :=
              filter (\<lambda>s. case s of ExportSpecifier loc ex \<Rightarrow> True | _ \<Rightarrow> False)
                (specifiers node)\<rparr>) name"
proof (intro conjI)
  show "(\<forall>s\<in>set (specifiers node).
        (\<exists>e. s = ExportDefaultSpecifier e) \<or> (\<exists>e. s = ExportNamespaceSpecifier e)
        \<or> (\<exists>loc lit. s = ExportSpecifier loc (ExportedStringLiteral lit))) \<longrightarrow>
      \<not> isNamedExportSpecifier node name"
    unfolding isNamedExportSpecifier_def list_ex_iff specifier_matches_iff by fastforce
next
  show "isNamedExportSpecifier node name
       = isNamedExportSpecifier
           (node\<lparr>specifiers :=
              filter (\<lambda>s. case s of ExportSpecifier loc ex \<Rightarrow> True | _ \<Rightarrow> False)
                (specifiers node)\<rparr>) name"
    unfolding isNamedExportSpecifier_def list_ex_iff specifier_matches_iff by auto
qed (simp_all add: isNamedExportSpecifier_def list_ex_iff)

theorem non_ExportSpecifier_entries_never_match_witness:
  "\<not> isNamedExportSpecifier
       \<lparr>declaration_node = None,
        specifiers = [ExportNamespaceSpecifier ''ns'', ExportDefaultSpecifier ''ns'',
                      ExportSpecifier ''a'' (ExportedStringLiteral ''ns'')]\<rparr> ''ns''"
  using non_ExportSpecifier_entries_never_match
          [of "\<lparr>declaration_node = None,
                specifiers = [ExportNamespaceSpecifier ''ns'', ExportDefaultSpecifier ''ns'',
                              ExportSpecifier ''a'' (ExportedStringLiteral ''ns'')]\<rparr>" "''ns''"]
  by simp

text \<open>
  C1. \<^verbatim>\<open>isNamedExport(node, name)\<close> is true exactly when at least one of the four
  elementary predicates is. The predicates are called in the order function form,
  variable form, destructured form, specifier form, and each one is called only when all
  the earlier ones returned false.
\<close>

theorem isNamedExport_is_disjunction:
  "(isNamedExport node name \<longleftrightarrow>
      isNamedExportFunction node name \<or> isNamedExportVariable node name
      \<or> isNamedExportDestructuredVariable node name \<or> isNamedExportSpecifier node name)
   \<and> prefix (isNamedExport_calls node name)
        [FunctionForm, VariableForm, DestructuredForm, SpecifierForm]
   \<and> FunctionForm \<in> set (isNamedExport_calls node name)
   \<and> (VariableForm \<in> set (isNamedExport_calls node name) \<longleftrightarrow>
        \<not> isNamedExportFunction node name)
   \<and> (DestructuredForm \<in> set (isNamedExport_calls node name) \<longleftrightarrow>
        \<not> isNamedExportFunction node name \<and> \<not> isNamedExportVariable node name)
   \<and> (SpecifierForm \<in> set (isNamedExport_calls node name) \<longleftrightarrow>
        \<not> isNamedExportFunction node name \<and> \<not> isNamedExportVariable node name
        \<and> \<not> isNamedExportDestructuredVariable node name)"
  by (simp add: isNamedExport_def isNamedExport_calls_def)

theorem isNamedExport_is_disjunction_witness:
  "isNamedExport
     \<lparr>declaration_node = Some (VariableDeclaration [VariableDeclarator (Identifier ''a'')]),
      specifiers = []\<rparr> ''a''
   \<and> isNamedExport_calls
     \<lparr>declaration_node = Some (VariableDeclaration [VariableDeclarator (Identifier ''a'')]),
      specifiers = []\<rparr> ''a'' = [FunctionForm, VariableForm]"
  using isNamedExport_is_disjunction
          [of "\<lparr>declaration_node = Some (VariableDeclaration [VariableDeclarator (Identifier ''a'')]),
                specifiers = []\<rparr>" "''a''"]
  by (simp add: isNamedExportFunction_def isNamedExportVariable_def isNamedExport_calls_def)



section \<open>The remover\<close>





end
